theory Spec2Isabelle
  imports Complex_Main
begin

section \<open>JavaScript values\<close>

text \<open>
  The screens are React Native components written in JavaScript.  Numbers are doubles;
  only their order against a constant and whether they are \<open>NaN\<close> matter to the code, so a
  number is \<open>NaN\<close>, an infinity, or a real.  Strings are lists of code units below 256.
\<close>

datatype jsnum = NaN | Fin real | PosInf | NegInf

datatype jsval =
    JUndefined
  | JNull
  | JBool bool
  | JNum jsnum
  | JStr string
  | JArr "jsval list"
  | JObj "(string \<times> jsval) list"

text \<open>An object that the code spreads, destructures or passes on: a finite map from keys.\<close>

type_synonym obj = "string \<rightharpoonup> jsval"

text \<open>\<open>o.k\<close> on an object: a missing key reads as \<open>undefined\<close>.\<close>

definition getp :: "obj \<Rightarrow> string \<Rightarrow> jsval" where
  "getp m k = (case m k of None \<Rightarrow> JUndefined | Some v \<Rightarrow> v)"

text \<open>\<open>isNaN(x)\<close> and the comparisons \<open>x < c\<close>, \<open>x <= c\<close> on numbers (false on \<open>NaN\<close>).\<close>

fun isNaN :: "jsnum \<Rightarrow> bool" where
  "isNaN NaN = True"
| "isNaN _ = False"


fun num_le :: "jsnum \<Rightarrow> real \<Rightarrow> bool" where
  "num_le NaN c = False"
| "num_le (Fin r) c = (r \<le> c)"
| "num_le PosInf c = False"
| "num_le NegInf c = True"

text \<open>ToBoolean: what \<open>!x\<close>, \<open>x || y\<close> and \<open>x && y\<close> test.\<close>

fun truthy :: "jsval \<Rightarrow> bool" where
  "truthy JUndefined = False"
| "truthy JNull = False"
| "truthy (JBool b) = b"
| "truthy (JNum n) = (\<not> isNaN n \<and> n \<noteq> Fin 0)"
| "truthy (JStr s) = (s \<noteq> [])"
| "truthy (JArr xs) = True"
| "truthy (JObj kvs) = True"

text \<open>\<open>x || d\<close>.\<close>

definition js_or :: "jsval \<Rightarrow> jsval \<Rightarrow> jsval" where
  "js_or x d = (if truthy x then x else d)"

fun isArray :: "jsval \<Rightarrow> bool" where
  "isArray (JArr xs) = True"
| "isArray _ = False"

section \<open>Decimal text\<close>

text \<open>
  White space as \<open>String.prototype.trim\<close>, \<open>parseInt\<close> and \<open>parseFloat\<close> skip it
  (tab, line feed, vertical tab, form feed, carriage return, space, no-break space),
  and the decimal digits.
\<close>

definition is_ws :: "char \<Rightarrow> bool" where
  "is_ws c = ((of_char c :: nat) \<in> {9, 10, 11, 12, 13, 32, 160})"

definition is_digit :: "char \<Rightarrow> bool" where
  "is_digit c = (48 \<le> (of_char c :: nat) \<and> (of_char c :: nat) \<le> 57)"

definition digit_val :: "char \<Rightarrow> nat" where
  "digit_val c = of_char c - 48"

definition digit_char :: "nat \<Rightarrow> char" where
  "digit_char d = ''0123456789'' ! d"

definition num_of_digits :: "string \<Rightarrow> nat" where
  "num_of_digits ds = foldl (\<lambda>a c. 10 * a + digit_val c) 0 ds"

definition trim :: "string \<Rightarrow> string" where
  "trim s = rev (dropWhile is_ws (rev (dropWhile is_ws s)))"

text \<open>
  Number-to-string conversion of a natural number, as a template literal prints it;
  \<open>digit_char\<close> is only applied to numbers below 10.
\<close>

function show_nat :: "nat \<Rightarrow> string" where
  "show_nat n = (if n < 10 then [digit_char n] else show_nat (n div 10) @ [digit_char (n mod 10)])"
  by pat_completeness auto
termination
  by (relation "measure id") auto

declare show_nat.simps [simp del]

text \<open>
  The double nearest to a natural number (ties to the even significand): the number is
  kept to its leading 53 bits, and from \<open>2^1024\<close> on the result is \<open>Infinity\<close>.
\<close>

function bitlen_nat :: "nat \<Rightarrow> nat" where
  "bitlen_nat n = (if n = 0 then 0 else Suc (bitlen_nat (n div 2)))"
  by pat_completeness auto
termination
  by (relation "measure id") auto

declare bitlen_nat.simps [simp del]

definition to_double :: "nat \<Rightarrow> jsnum" where
  "to_double n =
    (let e = bitlen_nat n - 53;
         q = n div 2 ^ e;
         r = n mod 2 ^ e;
         q' = (if 2 ^ e < 2 * r \<or> (2 * r = 2 ^ e \<and> odd q) then q + 1 else q)
     in if 2 ^ 1024 \<le> q' * 2 ^ e then PosInf else Fin (real (q' * 2 ^ e)))"

fun js_neg :: "jsnum \<Rightarrow> jsnum" where
  "js_neg NaN = NaN"
| "js_neg (Fin r) = Fin (- r)"
| "js_neg PosInf = NegInf"
| "js_neg NegInf = PosInf"

text \<open>
  \<open>parseInt(s, 10)\<close> on a string: leading white space is skipped, a sign is read, then the
  longest run of digits; no digit gives \<open>NaN\<close>, otherwise the result is the double nearest
  to the integer the digits spell, negated after a minus sign.
\<close>

definition parseInt10 :: "string \<Rightarrow> jsnum" where
  "parseInt10 s =
    (let S = dropWhile is_ws s;
         neg = (case S of [] \<Rightarrow> False | c # r \<Rightarrow> c = CHR ''-'');
         S' = (case S of [] \<Rightarrow> S | c # r \<Rightarrow> if c = CHR ''-'' \<or> c = CHR ''+'' then r else S);
         Z = takeWhile is_digit S'
     in if Z = [] then NaN
        else if neg then js_neg (to_double (num_of_digits Z))
        else to_double (num_of_digits Z))"

section \<open>The draft store (TreeDataContext)\<close>

text \<open>The state \<open>useState\<close> is initialised with, and \<open>resetTreeData\<close> sets again.\<close>

definition default_treeData :: obj where
  "default_treeData =
     [''treeId'' \<mapsto> JStr [],
      ''numBranches'' \<mapsto> JNum (Fin 0),
      ''stemData'' \<mapsto> JArr [],
      ''studentName'' \<mapsto> JStr [],
      ''studentRollNo'' \<mapsto> JStr [],
      ''studentGroup'' \<mapsto> JStr [],
      ''isAdmin'' \<mapsto> JBool False]"

text \<open>\<open>setTreeData(prevData => ({...prevData, ...newData}))\<close>.\<close>

definition updateTreeData :: "obj \<Rightarrow> obj \<Rightarrow> obj" where
  "updateTreeData prevData newData = prevData ++ newData"

definition resetTreeData :: "obj \<Rightarrow> obj" where
  "resetTreeData prevData = default_treeData"

section \<open>What a handler does besides changing state\<close>

datatype event =
    Alert string jsval
  | AlertOK string jsval
  | Navigate string obj
  | NavReset string
  | SaveCall obj jsval
  | Uncaught jsval

section \<open>Built-ins and collaborators outside the repository\<close>

text \<open>
  \<open>parseFloat\<close> and \<open>parseInt(_, 10)\<close> applied to an arbitrary value (the conversion to a
  string included).  The language leaves the value \<open>parseInt\<close> gives to implementations
  beyond 20 significant digits, so the handlers are defined over any such pair; a
  reference pair is \<open>ref_builtins\<close> below.
\<close>

record builtins =
  parseFloat :: "jsval \<Rightarrow> jsnum"
  parseInt :: "jsval \<Rightarrow> jsnum"

text \<open>A call that returns a value or throws one (an awaited promise: resolves or rejects).\<close>

datatype outcome = Returns jsval | Throws jsval

text \<open>
  What the upload screen gets from outside: \<open>useAuth().currentUser\<close>; \<open>auth.currentUser\<close>
  of the firebase configuration; \<open>AsyncStorage.getItem\<close> of the key
  \<open>studentDetails_<e-mail>\<close>, as a function of the e-mail value; \<open>JSON.parse\<close>;
  \<open>saveTreeData(record, image)\<close> of the tree service; and the errors the engine throws
  for a property read on \<open>null\<close>/\<open>undefined\<close> and for an undeclared identifier.
\<close>

record services =
  currentUser :: jsval
  auth_currentUser :: jsval
  getItem :: "jsval \<Rightarrow> outcome"
  JSON_parse :: "jsval \<Rightarrow> outcome"
  saveTreeData :: "obj \<Rightarrow> jsval \<Rightarrow> outcome"
  TypeError :: jsval
  ReferenceError :: jsval

text \<open>
  \<open>x.k\<close> on a value, for the keys the code reads (\<open>email\<close>, \<open>message\<close>, the student
  fields): \<open>None\<close> is the TypeError on \<open>null\<close> and \<open>undefined\<close>; primitives and arrays
  have no such key.  \<open>x?.k\<close> gives \<open>undefined\<close> instead of throwing.
\<close>

fun get_prop :: "jsval \<Rightarrow> string \<Rightarrow> jsval option" where
  "get_prop JUndefined k = None"
| "get_prop JNull k = None"
| "get_prop (JObj kvs) k = Some (case map_of kvs k of None \<Rightarrow> JUndefined | Some v \<Rightarrow> v)"
| "get_prop v k = Some JUndefined"

definition opt_prop :: "jsval \<Rightarrow> string \<Rightarrow> jsval" where
  "opt_prop x k = (case get_prop x k of None \<Rightarrow> JUndefined | Some v \<Rightarrow> v)"

fun elems :: "jsval \<Rightarrow> jsval list" where
  "elems (JArr xs) = xs"
| "elems v = []"

section \<open>Step 1: TreeDataForm\<close>


section \<open>Step 2: BranchDetailsForm\<close>

text \<open>One entry of the local \<open>stemData\<close> state: the two text fields of a stem.\<close>

record stem =
  height :: string
  diameter :: string

text \<open>
  The callback of \<open>stemData.map\<close> in \<open>handleNext\<close>: the alerts it raises and its return
  value (\<open>null\<close> or the numeric entry).
\<close>

definition validate_stem :: "builtins \<Rightarrow> nat \<Rightarrow> stem \<Rightarrow> event list \<times> jsval" where
  "validate_stem js index s =
    (let h = parseFloat js (JStr (height s));
         d = parseFloat js (JStr (diameter s))
     in if height s = [] \<or> trim (height s) = [] then
          ([Alert ''Error''
              (JStr (''Please enter height for Primary Stem '' @ show_nat (index + 1)))], JNull)
        else if diameter s = [] \<or> trim (diameter s) = [] then
          ([Alert ''Error''
              (JStr (''Please enter diameter for Primary Stem '' @ show_nat (index + 1)))], JNull)
        else if isNaN h \<or> num_le h 0 then
          ([Alert ''Error''
              (JStr (''Please enter a valid height for Primary Stem '' @ show_nat (index + 1)))],
           JNull)
        else if isNaN d \<or> num_le d 0 then
          ([Alert ''Error''
              (JStr (''Please enter a valid diameter for Primary Stem '' @ show_nat (index + 1)))],
           JNull)
        else ([], JObj [(''height'', JNum h), (''diameter'', JNum d)]))"

text \<open>
  \<open>handleNext\<close> of BranchDetailsForm: \<open>params\<close> is \<open>route.params\<close>, \<open>stemData\<close> the local
  entries, \<open>treeData\<close> the draft store.  \<open>map\<close> calls the callback on every entry, in
  ascending index order.
\<close>

definition BranchDetailsForm_handleNext ::
  "builtins \<Rightarrow> obj \<Rightarrow> stem list \<Rightarrow> obj \<Rightarrow> obj \<times> event list" where
  "BranchDetailsForm_handleNext js params stemData treeData =
    (let treeId = getp params ''treeId'';
         branches = getp params ''branches'';
         studentName = getp params ''studentName'';
         studentRollNo = getp params ''studentRollNo'';
         studentGroup = getp params ''studentGroup''
     in if \<not> truthy treeId \<or> \<not> truthy branches then
          (treeData,
           [Alert ''Error'' (JStr ''Please enter all required details before proceeding.'')])
        else
          let results = map (\<lambda>(index, s). validate_stem js index s) (enumerate 0 stemData);
              alerts = concat (map fst results);
              validatedData = map snd results
          in if JNull \<in> set validatedData then (treeData, alerts)
             else
               (updateTreeData treeData
                  [''treeId'' \<mapsto> treeId,
                   ''numBranches'' \<mapsto> branches,
                   ''stemData'' \<mapsto> JArr validatedData,
                   ''studentName'' \<mapsto> studentName,
                   ''studentRollNo'' \<mapsto> studentRollNo,
                   ''studentGroup'' \<mapsto> studentGroup],
                alerts @
                [Navigate ''UploadScreen''
                   [''treeId'' \<mapsto> treeId,
                    ''branches'' \<mapsto> branches,
                    ''stemData'' \<mapsto> JArr validatedData,
                    ''studentName'' \<mapsto> studentName,
                    ''studentRollNo'' \<mapsto> studentRollNo,
                    ''studentGroup'' \<mapsto> studentGroup]]))"

section \<open>Step 3: UploadScreen\<close>

text \<open>
  The component state of either upload screen: the draft store it reads through
  \<open>useTreeData\<close>, \<open>image\<close> (\<open>null\<close> or the picked uri) and \<open>loading\<close>.
\<close>

record screen =
  s_treeData :: obj
  s_image :: jsval
  s_loading :: bool

text \<open>
  The \<open>catch\<close> clause of both \<open>handleSave\<close>s:
  \<open>Alert.alert("Error", error.message || "Failed to save data")\<close>.  Reading \<open>message\<close> of a
  thrown \<open>null\<close>/\<open>undefined\<close> throws from inside the clause, and nothing catches that.
\<close>

definition catch_alert :: "services \<Rightarrow> jsval \<Rightarrow> event list" where
  "catch_alert ext error =
    (case get_prop error ''message'' of
       None \<Rightarrow> [Uncaught (TypeError ext)]
     | Some m \<Rightarrow> [Alert ''Error'' (js_or m (JStr ''Failed to save data''))])"

subsection \<open>The variant reading the navigation parameters\<close>

text \<open>The \<open>for\<close> loop over \<open>branchDiameters\<close>: the index at which it returns, if it does.\<close>

fun first_bad_diameter :: "builtins \<Rightarrow> nat \<Rightarrow> jsval list \<Rightarrow> nat option" where
  "first_bad_diameter js i [] = None"
| "first_bad_diameter js i (d # ds) =
     (if isNaN (parseFloat js d) then Some i else first_bad_diameter js (Suc i) ds)"

text \<open>
  The \<open>try\<close> block after \<open>setLoading(true)\<close>: the store it leaves, the events, and the
  value thrown out of it, if any.  \<open>context\<close> is bound to \<open>useTreeData()\<close> in this file, so
  \<open>context && context.resetTreeData\<close> holds and the store is reset after the awaited call.
\<close>

definition params_try :: "builtins \<Rightarrow> services \<Rightarrow> obj \<Rightarrow> screen \<Rightarrow> obj \<times> event list \<times> jsval option" where
  "params_try js ext params st =
    (let treeId = getp params ''treeId'';
         height = getp params ''height'';
         branches = getp params ''branches'';
         branchDiameters = getp params ''branchDiameters'';
         mainBranchDiameter = getp params ''mainBranchDiameter''
     in if \<not> truthy height \<or> isNaN (parseFloat js height) then
          (s_treeData st, [Alert ''Error'' (JStr ''Please enter a valid height'')], None)
        else if \<not> truthy mainBranchDiameter \<or> isNaN (parseFloat js mainBranchDiameter) then
          (s_treeData st,
           [Alert ''Error'' (JStr ''Please enter a valid main branch diameter'')], None)
        else if \<not> truthy branchDiameters \<or> \<not> isArray branchDiameters
                \<or> length (elems branchDiameters) = 0 then
          (s_treeData st, [Alert ''Error'' (JStr ''Please enter valid branch diameters'')], None)
        else
          (case first_bad_diameter js 0 (elems branchDiameters) of
             Some i \<Rightarrow>
               (s_treeData st,
                [Alert ''Error''
                   (JStr (''Please enter a valid diameter for branch '' @ show_nat (i + 1)))],
                None)
           | None \<Rightarrow>
               let treeData =
                     [''treeId'' \<mapsto> js_or treeId (JStr []),
                      ''height'' \<mapsto> JNum (parseFloat js height),
                      ''numBranches'' \<mapsto> JNum (parseInt js branches),
                      ''branchDiameters'' \<mapsto>
                         JArr (map (\<lambda>d. JNum (parseFloat js d)) (elems branchDiameters)),
                      ''mainBranchDiameter'' \<mapsto> JNum (parseFloat js mainBranchDiameter),
                      ''studentName'' \<mapsto> js_or (getp (s_treeData st) ''studentName'') (JStr []),
                      ''studentRollNo'' \<mapsto> js_or (getp (s_treeData st) ''studentRollNo'') (JStr []),
                      ''studentGroup'' \<mapsto> js_or (getp (s_treeData st) ''studentGroup'') (JStr []),
                      ''userEmail'' \<mapsto> js_or (opt_prop (auth_currentUser ext) ''email'') (JStr [])]
               in (case saveTreeData ext treeData (s_image st) of
                     Throws error \<Rightarrow>
                       (s_treeData st, [SaveCall treeData (s_image st)], Some error)
                   | Returns r \<Rightarrow>
                       (resetTreeData (s_treeData st),
                        [SaveCall treeData (s_image st),
                         AlertOK ''Success'' (JStr ''Tree data has been saved!'')],
                        None))))"

text \<open>
  \<open>handleSave\<close>: the image check comes before the \<open>try\<close>; whatever the \<open>try\<close> block does,
  \<open>finally\<close> clears \<open>loading\<close>.  \<open>route_params\<close> is \<open>route.params\<close>, \<open>None\<close> when there are
  none (\<open>route.params || {}\<close>).
\<close>

definition UploadScreen_params_handleSave ::
  "builtins \<Rightarrow> services \<Rightarrow> obj option \<Rightarrow> screen \<Rightarrow> screen \<times> event list" where
  "UploadScreen_params_handleSave js ext route_params st =
    (if \<not> truthy (s_image st) then
       (st, [Alert ''Error'' (JStr ''Please upload an image before saving.'')])
     else
       let params = (case route_params of None \<Rightarrow> Map.empty | Some p \<Rightarrow> p);
           (treeData', evs, thrown) = params_try js ext params st;
           evs' = (case thrown of None \<Rightarrow> evs | Some error \<Rightarrow> evs @ catch_alert ext error)
       in (st\<lparr>s_treeData := treeData', s_loading := False\<rparr>, evs'))"

text \<open>The \<open>onPress\<close> of the success alert's OK button in this variant.\<close>

definition UploadScreen_params_onPressOK :: "screen \<Rightarrow> screen \<times> event list" where
  "UploadScreen_params_onPressOK st = (st, [NavReset ''TreeDataForm''])"

text \<open>
  The same handler turn by turn.  \<open>handleSave\<close> runs up to \<open>await saveTreeData(...)\<close> in the
  turn of the press and the rest when the call settles; in between the user can pick
  another image, and the Save button is disabled while \<open>loading\<close> is set
  (\<open>disabled={loading}\<close>).

  \<open>params_checked\<close> is the \<open>try\<close> block up to the call: the alert of the check that
  failed, or the record \<open>treeData\<close> that is passed to the service.
\<close>

definition params_checked :: "builtins \<Rightarrow> services \<Rightarrow> obj \<Rightarrow> screen \<Rightarrow> event list + obj" where
  "params_checked js ext params st =
    (let treeId = getp params ''treeId'';
         height = getp params ''height'';
         branches = getp params ''branches'';
         branchDiameters = getp params ''branchDiameters'';
         mainBranchDiameter = getp params ''mainBranchDiameter''
     in if \<not> truthy height \<or> isNaN (parseFloat js height) then
          Inl [Alert ''Error'' (JStr ''Please enter a valid height'')]
        else if \<not> truthy mainBranchDiameter \<or> isNaN (parseFloat js mainBranchDiameter) then
          Inl [Alert ''Error'' (JStr ''Please enter a valid main branch diameter'')]
        else if \<not> truthy branchDiameters \<or> \<not> isArray branchDiameters
                \<or> length (elems branchDiameters) = 0 then
          Inl [Alert ''Error'' (JStr ''Please enter valid branch diameters'')]
        else
          (case first_bad_diameter js 0 (elems branchDiameters) of
             Some i \<Rightarrow>
               Inl [Alert ''Error''
                      (JStr (''Please enter a valid diameter for branch '' @ show_nat (i + 1)))]
           | None \<Rightarrow>
               Inr [''treeId'' \<mapsto> js_or treeId (JStr []),
                    ''height'' \<mapsto> JNum (parseFloat js height),
                    ''numBranches'' \<mapsto> JNum (parseInt js branches),
                    ''branchDiameters'' \<mapsto>
                       JArr (map (\<lambda>d. JNum (parseFloat js d)) (elems branchDiameters)),
                    ''mainBranchDiameter'' \<mapsto> JNum (parseFloat js mainBranchDiameter),
                    ''studentName'' \<mapsto> js_or (getp (s_treeData st) ''studentName'') (JStr []),
                    ''studentRollNo'' \<mapsto> js_or (getp (s_treeData st) ''studentRollNo'') (JStr []),
                    ''studentGroup'' \<mapsto> js_or (getp (s_treeData st) ''studentGroup'') (JStr []),
                    ''userEmail'' \<mapsto> js_or (opt_prop (auth_currentUser ext) ''email'') (JStr [])]))"

text \<open>
  The mounted screen between turns: its state, the \<open>saveTreeData(record, image)\<close> call
  a suspended \<open>handleSave\<close> is awaiting, if any, and the events so far.
\<close>

record pconfig =
  p_screen :: screen
  p_pending :: "(obj \<times> jsval) option"
  p_events :: "event list"

text \<open>
  What can happen to the mounted screen: a pick or a photo that is not cancelled
  (\<open>setImage(result.assets[0].uri)\<close>), a press on Save, and the awaited call settling.
\<close>

datatype action = PickImage string | PressSave | ServiceSettles

text \<open>The screen as mounted: \<open>useState(null)\<close>, \<open>useState(false)\<close>, nothing awaited.\<close>

definition params_init :: "obj \<Rightarrow> pconfig" where
  "params_init treeData =
     \<lparr>p_screen = \<lparr>s_treeData = treeData, s_image = JNull, s_loading = False\<rparr>,
      p_pending = None, p_events = []\<rparr>"

text \<open>
  A press on Save: nothing while the button is disabled; otherwise \<open>handleSave\<close> up to
  its \<open>await\<close>, or to its end when it returns before calling the service.
\<close>

definition params_press :: "builtins \<Rightarrow> services \<Rightarrow> obj option \<Rightarrow> pconfig \<Rightarrow> pconfig" where
  "params_press js ext route_params c =
    (let st = p_screen c in
     if s_loading st then c
     else if \<not> truthy (s_image st) then
       c\<lparr>p_events := p_events c
            @ [Alert ''Error'' (JStr ''Please upload an image before saving.'')]\<rparr>
     else
       (case params_checked js ext
               (case route_params of None \<Rightarrow> Map.empty | Some p \<Rightarrow> p) st of
          Inl alerts \<Rightarrow>
            c\<lparr>p_screen := st\<lparr>s_loading := False\<rparr>, p_events := p_events c @ alerts\<rparr>
        | Inr treeData \<Rightarrow>
            c\<lparr>p_screen := st\<lparr>s_loading := True\<rparr>,
              p_pending := Some (treeData, s_image st),
              p_events := p_events c @ [SaveCall treeData (s_image st)]\<rparr>))"

text \<open>
  The awaited call settles: the rest of the \<open>try\<close> block or the \<open>catch\<close> clause, then
  \<open>finally\<close>.
\<close>

definition params_settle :: "services \<Rightarrow> pconfig \<Rightarrow> pconfig" where
  "params_settle ext c =
    (case p_pending c of
       None \<Rightarrow> c
     | Some (treeData, img) \<Rightarrow>
        (case saveTreeData ext treeData img of
           Throws error \<Rightarrow>
             c\<lparr>p_screen := (p_screen c)\<lparr>s_loading := False\<rparr>,
               p_pending := None,
               p_events := p_events c @ catch_alert ext error\<rparr>
         | Returns r \<Rightarrow>
             c\<lparr>p_screen := (p_screen c)\<lparr>s_treeData := resetTreeData (s_treeData (p_screen c)),
                                       s_loading := False\<rparr>,
               p_pending := None,
               p_events := p_events c
                 @ [AlertOK ''Success'' (JStr ''Tree data has been saved!'')]\<rparr>))"

fun params_step :: "builtins \<Rightarrow> services \<Rightarrow> obj option \<Rightarrow> pconfig \<Rightarrow> action \<Rightarrow> pconfig" where
  "params_step js ext route_params c (PickImage uri) =
     c\<lparr>p_screen := (p_screen c)\<lparr>s_image := JStr uri\<rparr>\<rparr>"
| "params_step js ext route_params c PressSave = params_press js ext route_params c"
| "params_step js ext route_params c ServiceSettles = params_settle ext c"

definition params_run ::
  "builtins \<Rightarrow> services \<Rightarrow> obj option \<Rightarrow> action list \<Rightarrow> pconfig \<Rightarrow> pconfig" where
  "params_run js ext route_params acts c = foldl (params_step js ext route_params) c acts"

subsection \<open>The variant reading the draft store\<close>

text \<open>
  The identifiers this file declares: its imports, its styled components, and the
  constants of the component function.  It destructures \<open>{ treeData }\<close> from
  \<open>useTreeData()\<close> and declares no \<open>context\<close>; the runtime has no global of that name.
\<close>

definition store_variant_scope :: "string list" where
  "store_variant_scope =
     [''React'', ''useState'', ''useEffect'', ''View'', ''Text'', ''TouchableOpacity'',
      ''Image'', ''Alert'', ''ActivityIndicator'', ''ImagePicker'', ''styled'',
      ''saveTreeData'', ''useRoute'', ''useNavigation'', ''useTreeData'', ''auth'',
      ''supabase'', ''useAuth'', ''AsyncStorage'', ''Container'', ''Card'', ''UploadButton'',
      ''UploadText'', ''Button'', ''ButtonText'', ''UploadScreen'', ''image'', ''setImage'',
      ''loading'', ''setLoading'', ''route'', ''navigation'', ''treeData'', ''currentUser'',
      ''handleSave'', ''pickImage'', ''takePhoto'']"

text \<open>
  The object literal \<open>dataToSave\<close>; its property reads throw when \<open>studentDetails\<close> or
  \<open>currentUser\<close> is \<open>null\<close> (\<open>None\<close>).
\<close>

definition dataToSave_of :: "obj \<Rightarrow> jsval \<Rightarrow> jsval \<Rightarrow> obj option" where
  "dataToSave_of treeData studentDetails user =
    Option.bind (get_prop studentDetails ''studentName'') (\<lambda>studentName.
    Option.bind (get_prop studentDetails ''studentRollNo'') (\<lambda>studentRollNo.
    Option.bind (get_prop studentDetails ''studentGroup'') (\<lambda>studentGroup.
    Option.bind (get_prop user ''email'') (\<lambda>email.
      Some [''treeId'' \<mapsto> getp treeData ''treeId'',
            ''numBranches'' \<mapsto> getp treeData ''numBranches'',
            ''stemData'' \<mapsto> getp treeData ''stemData'',
            ''studentName'' \<mapsto> studentName,
            ''studentRollNo'' \<mapsto> studentRollNo,
            ''studentGroup'' \<mapsto> studentGroup,
            ''userEmail'' \<mapsto> email]))))"

text \<open>
  The \<open>try\<close> block after \<open>setLoading(true)\<close>: its events and the value thrown out of it,
  if any.  The store (an object of the provider's state) is always truthy, so
  \<open>!treeData\<close> is left out.  \<open>navigation.navigate('StudentDetails')\<close> passes no parameters.
\<close>

definition store_try :: "services \<Rightarrow> screen \<Rightarrow> event list \<times> jsval option" where
  "store_try ext st =
    (if \<not> truthy (s_image st) then
       ([Alert ''Error'' (JStr ''Please upload an image before saving.'')], None)
     else
       (case get_prop (currentUser ext) ''email'' of
          None \<Rightarrow> ([], Some (TypeError ext))
        | Some email \<Rightarrow>
           (case getItem ext email of
              Throws error \<Rightarrow> ([], Some error)
            | Returns storedDetails \<Rightarrow>
               if \<not> truthy storedDetails then
                 ([Alert ''Error''
                     (JStr ''Student details not found. Please complete student details first.''),
                   Navigate ''StudentDetails'' Map.empty], None)
               else
                 (case JSON_parse ext storedDetails of
                    Throws error \<Rightarrow> ([], Some error)
                  | Returns studentDetails \<Rightarrow>
                     if \<not> truthy (getp (s_treeData st) ''stemData'')
                        \<or> \<not> isArray (getp (s_treeData st) ''stemData'') then
                       ([Alert ''Error''
                           (JStr ''Invalid or missing stem data. Please go back and enter the measurements again.'')],
                        None)
                     else
                       (case dataToSave_of (s_treeData st) studentDetails (currentUser ext) of
                          None \<Rightarrow> ([], Some (TypeError ext))
                        | Some dataToSave \<Rightarrow>
                           (case saveTreeData ext dataToSave (s_image st) of
                              Throws error \<Rightarrow> ([SaveCall dataToSave (s_image st)], Some error)
                            | Returns r \<Rightarrow>
                               ([SaveCall dataToSave (s_image st),
                                 AlertOK ''Success'' (JStr ''Tree data has been saved!'')],
                                None)))))))"

text \<open>\<open>handleSave\<close>: the whole body is inside \<open>try\<close>; \<open>finally\<close> clears \<open>loading\<close>.\<close>

definition UploadScreen_store_handleSave :: "services \<Rightarrow> screen \<Rightarrow> screen \<times> event list" where
  "UploadScreen_store_handleSave ext st =
    (let (evs, thrown) = store_try ext st;
         evs' = (case thrown of None \<Rightarrow> evs | Some error \<Rightarrow> evs @ catch_alert ext error)
     in (st\<lparr>s_loading := False\<rparr>, evs'))"

text \<open>
  The \<open>onPress\<close> of the success alert's OK button in this variant:
  \<open>if (context?.resetTreeData) context.resetTreeData(); navigation.reset(...)\<close>.
  Evaluating an identifier that is not declared throws a ReferenceError, with or
  without \<open>?.\<close>, and the rest of the callback does not run.
\<close>

definition UploadScreen_store_onPressOK :: "services \<Rightarrow> screen \<Rightarrow> screen \<times> event list" where
  "UploadScreen_store_onPressOK ext st =
    (if ''context'' \<in> set store_variant_scope then
       (st\<lparr>s_treeData := resetTreeData (s_treeData st)\<rparr>, [NavReset ''TreeDataForm''])
     else (st, [Uncaught (ReferenceError ext)]))"

fun is_SaveCall :: "event \<Rightarrow> bool" where
  "is_SaveCall (SaveCall r i) = True"
| "is_SaveCall e = False"

fun is_Alert :: "event \<Rightarrow> bool" where
  "is_Alert (Alert t m) = True"
| "is_Alert e = False"

fun is_Navigate :: "event \<Rightarrow> bool" where
  "is_Navigate (Navigate n p) = True"
| "is_Navigate e = False"

text \<open>The save service was invoked during a run.\<close>

definition service_invoked :: "event list \<Rightarrow> bool" where
  "service_invoked evs = list_ex is_SaveCall evs"

section \<open>The validation rules in the specification's words\<close>

text \<open>
  A field is present when it is not blank; a parsed number passes when it is a number
  greater than 0.  An entry passes when both fields are present and both pass.
\<close>

definition blank :: "string \<Rightarrow> bool" where
  "blank s = list_all is_ws s"

fun positive :: "jsnum \<Rightarrow> bool" where
  "positive (Fin r) = (0 < r)"
| "positive PosInf = True"
| "positive n = False"

definition entry_passes :: "builtins \<Rightarrow> stem \<Rightarrow> bool" where
  "entry_passes js s =
    (\<not> blank (height s) \<and> \<not> blank (diameter s)
     \<and> positive (parseFloat js (JStr (height s)))
     \<and> positive (parseFloat js (JStr (diameter s))))"

text \<open>
  The first of the four checks, in the order height present, diameter present, height
  greater than 0, diameter greater than 0, that an entry fails: the text of its error
  up to the stem number.
\<close>

definition first_failure :: "builtins \<Rightarrow> stem \<Rightarrow> string option" where
  "first_failure js s =
    (if blank (height s) then Some ''Please enter height for Primary Stem ''
     else if blank (diameter s) then Some ''Please enter diameter for Primary Stem ''
     else if \<not> positive (parseFloat js (JStr (height s))) then
       Some ''Please enter a valid height for Primary Stem ''
     else if \<not> positive (parseFloat js (JStr (diameter s))) then
       Some ''Please enter a valid diameter for Primary Stem ''
     else None)"

text \<open>The error expected for the entry at 0-based position \<open>i\<close>: none, or one alert.\<close>

definition entry_errors :: "builtins \<Rightarrow> nat \<times> stem \<Rightarrow> event list" where
  "entry_errors js p =
    (case first_failure js (snd p) of
       None \<Rightarrow> []
     | Some m \<Rightarrow> [Alert ''Error'' (JStr (m @ show_nat (fst p + 1)))])"

text \<open>The numeric form of an entry.\<close>

definition numeric_entry :: "builtins \<Rightarrow> stem \<Rightarrow> jsval" where
  "numeric_entry js s =
     JObj [(''height'', JNum (parseFloat js (JStr (height s)))),
           (''diameter'', JNum (parseFloat js (JStr (diameter s))))]"

section \<open>Reference instances for concrete runs\<close>

text \<open>
  \<open>parseFloat\<close> on a string: white space, a sign, then \<open>Infinity\<close> or the longest decimal
  literal (digits, a point, digits, an exponent); \<open>NaN\<close> without a digit.  The value is
  the exact decimal; a double rounds it (to \<open>Infinity\<close> or 0 at the extremes).
\<close>

definition exponent_of :: "string \<Rightarrow> bool \<times> nat" where
  "exponent_of r =
    (case r of
       [] \<Rightarrow> (False, 0)
     | c # t \<Rightarrow>
        if c = CHR ''e'' \<or> c = CHR ''E'' then
          (case t of
             [] \<Rightarrow> (False, 0)
           | g # u \<Rightarrow>
              if g = CHR ''-'' then (True, num_of_digits (takeWhile is_digit u))
              else if g = CHR ''+'' then (False, num_of_digits (takeWhile is_digit u))
              else (False, num_of_digits (takeWhile is_digit t)))
        else (False, 0))"

definition parseFloat_str :: "string \<Rightarrow> jsnum" where
  "parseFloat_str s =
    (let S = dropWhile is_ws s;
         neg = (case S of [] \<Rightarrow> False | c # r \<Rightarrow> c = CHR ''-'');
         S' = (case S of [] \<Rightarrow> S | c # r \<Rightarrow> if c = CHR ''-'' \<or> c = CHR ''+'' then r else S)
     in if take 8 S' = ''Infinity'' then (if neg then NegInf else PosInf)
        else
          let ip = takeWhile is_digit S';
              r1 = dropWhile is_digit S';
              pt = (case r1 of [] \<Rightarrow> False | c # t \<Rightarrow> c = CHR ''.'');
              fp = (if pt then takeWhile is_digit (tl r1) else []);
              r2 = (if pt then dropWhile is_digit (tl r1) else r1)
          in if ip = [] \<and> fp = [] then NaN
             else
               let m = real (num_of_digits ip) + real (num_of_digits fp) / 10 ^ length fp;
                   (eneg, x) = exponent_of r2;
                   v = (if eneg then m / 10 ^ x else m * 10 ^ x)
               in Fin (if neg then - v else v))"

text \<open>
  On other values the built-ins parse the value's string form: a number parses to
  itself under \<open>parseFloat\<close> and to its integer part under \<open>parseInt\<close> (for magnitudes
  printed without an exponent), an array to what its first element parses to,
  everything else to \<open>NaN\<close>.
\<close>

fun parseFloat_ref :: "jsval \<Rightarrow> jsnum" where
  "parseFloat_ref (JStr s) = parseFloat_str s"
| "parseFloat_ref (JNum n) = n"
| "parseFloat_ref (JArr (x # xs)) = parseFloat_ref x"
| "parseFloat_ref v = NaN"

fun parseInt_ref :: "jsval \<Rightarrow> jsnum" where
  "parseInt_ref (JStr s) = parseInt10 s"
| "parseInt_ref (JNum (Fin r)) = Fin (if 0 \<le> r then of_int \<lfloor>r\<rfloor> else of_int \<lceil>r\<rceil>)"
| "parseInt_ref (JArr (x # xs)) = parseInt_ref x"
| "parseInt_ref v = NaN"

definition ref_builtins :: builtins where
  "ref_builtins = \<lparr>parseFloat = parseFloat_ref, parseInt = parseInt_ref\<rparr>"

text \<open>
  A signed-in student with stored details and a save service that succeeds; and the same
  with a save service that rejects with the message \<open>network unavailable\<close>.
\<close>

definition demo_user :: jsval where
  "demo_user = JObj [(''email'', JStr ''student@example.org'')]"

definition demo_details :: jsval where
  "demo_details =
     JObj [(''studentName'', JStr ''Asha''), (''studentRollNo'', JStr ''21''),
           (''studentGroup'', JStr ''A'')]"

definition ok_services :: services where
  "ok_services =
     \<lparr>currentUser = demo_user,
      auth_currentUser = demo_user,
      getItem = (\<lambda>email. Returns (JStr ''stored'')),
      JSON_parse = (\<lambda>text. Returns demo_details),
      saveTreeData = (\<lambda>record image. Returns JUndefined),
      TypeError = JObj [(''name'', JStr ''TypeError'')],
      ReferenceError = JObj [(''name'', JStr ''ReferenceError'')]\<rparr>"

definition failing_services :: services where
  "failing_services =
     ok_services\<lparr>saveTreeData :=
       (\<lambda>record image. Throws (JObj [(''message'', JStr ''network unavailable'')]))\<rparr>"

text \<open>The three entries of the specification's scenario, a valid pair, and a blank one.\<close>

definition scenario_stems :: "stem list" where
  "scenario_stems =
     [\<lparr>height = ''12.5'', diameter = ''30''\<rparr>,
      \<lparr>height = ''8'', diameter = ''15.2''\<rparr>,
      \<lparr>height = ''0'', diameter = ''10''\<rparr>]"

definition valid_stems :: "stem list" where
  "valid_stems =
     [\<lparr>height = ''12.5'', diameter = ''30''\<rparr>,
      \<lparr>height = ''8'', diameter = ''15.2''\<rparr>]"

definition blank_stem :: stem where
  "blank_stem = \<lparr>height = [], diameter = []\<rparr>"

definition step2_params :: obj where
  "step2_params =
     [''treeId'' \<mapsto> JStr ''T100'',
      ''branches'' \<mapsto> JNum (Fin 2),
      ''studentName'' \<mapsto> JStr ''Asha'',
      ''studentRollNo'' \<mapsto> JStr ''21'',
      ''studentGroup'' \<mapsto> JStr ''A'']"

text \<open>A draft store filled by the first two steps, and upload screens showing it.\<close>

definition filled_treeData :: obj where
  "filled_treeData =
     [''treeId'' \<mapsto> JStr ''T100'',
      ''numBranches'' \<mapsto> JNum (Fin 1),
      ''stemData'' \<mapsto> JArr [JObj [(''height'', JNum (Fin 8)), (''diameter'', JNum (Fin 15))]],
      ''studentName'' \<mapsto> JStr ''Asha'',
      ''studentRollNo'' \<mapsto> JStr ''21'',
      ''studentGroup'' \<mapsto> JStr ''A'',
      ''isAdmin'' \<mapsto> JBool False]"

definition filled_screen :: screen where
  "filled_screen =
     \<lparr>s_treeData = filled_treeData, s_image = JStr ''file:///tree.jpg'', s_loading = False\<rparr>"

definition empty_stems_screen :: screen where
  "empty_stems_screen =
     \<lparr>s_treeData = default_treeData, s_image = JStr ''file:///tree.jpg'', s_loading = False\<rparr>"

definition no_image_screen :: screen where
  "no_image_screen = \<lparr>s_treeData = filled_treeData, s_image = JNull, s_loading = False\<rparr>"

text \<open>Navigation parameters of the shape the parameter-reading upload screen expects.\<close>

definition flat_params :: obj where
  "flat_params =
     [''treeId'' \<mapsto> JStr ''T100'',
      ''height'' \<mapsto> JStr ''12.5'',
      ''branches'' \<mapsto> JStr ''2'',
      ''branchDiameters'' \<mapsto> JArr [JStr ''3'', JStr ''4.5''],
      ''mainBranchDiameter'' \<mapsto> JStr ''30'']"

section \<open>Decimal text: printing and reading back\<close>







text \<open>The number of bits of a natural number, and rounding to a double.\<close>

lemma bitlen_nat_0: "bitlen_nat 0 = 0"
  by (simp add: bitlen_nat.simps)

lemma bitlen_nat_pos: "0 < n \<Longrightarrow> bitlen_nat n = Suc (bitlen_nat (n div 2))"
  by (simp add: bitlen_nat.simps [of n])


lemma bitlen_nat_lower: "0 < n \<Longrightarrow> 2 ^ (bitlen_nat n - 1) \<le> n"
proof (induction n rule: bitlen_nat.induct)
  case (1 n)
  show ?case
  proof (cases "n div 2 = 0")
    case True
    with 1(2) have "n = 1" by linarith
    then show ?thesis by (simp add: bitlen_nat_pos bitlen_nat_0)
  next
    case False
    with 1 have ih: "2 ^ (bitlen_nat (n div 2) - 1) \<le> n div 2" by simp
    from False have "0 < bitlen_nat (n div 2)" by (simp add: bitlen_nat_pos)
    then have "(2::nat) ^ bitlen_nat (n div 2) = 2 * 2 ^ (bitlen_nat (n div 2) - 1)"
      by (cases "bitlen_nat (n div 2)") simp_all
    with ih have "2 ^ bitlen_nat (n div 2) \<le> n" by linarith
    with 1(2) show ?thesis by (simp add: bitlen_nat_pos)
  qed
qed

lemma bitlen_nat_le: "n < 2 ^ k \<Longrightarrow> bitlen_nat n \<le> k"
proof (cases "n = 0")
  case True
  then show ?thesis by (simp add: bitlen_nat_0)
next
  case False
  assume "n < 2 ^ k"
  from False have "2 ^ (bitlen_nat n - 1) \<le> n" by (simp only: bitlen_nat_lower neq0_conv)
  from this \<open>n < 2 ^ k\<close> have "(2::nat) ^ (bitlen_nat n - 1) < 2 ^ k"
    by (rule le_less_trans)
  then have "bitlen_nat n - 1 < k" by (rule power_less_imp_less_exp [rotated]) simp
  then show ?thesis by simp
qed


lemma to_double_exact: "n < 2 ^ 53 \<Longrightarrow> to_double n = Fin (real n)"
proof -
  assume a: "n < 2 ^ 53"
  then have "bitlen_nat n - 53 = 0" using bitlen_nat_le [of n 53] by simp
  moreover have "\<not> (2::nat) ^ 1024 \<le> n" using a by simp
  ultimately show ?thesis by (simp add: to_double_def)
qed





section \<open>Properties of the draft store\<close>

text \<open>
  C9. Draft store contract: after \<open>update(partial)\<close> every key named in the partial holds
  the partial's value and every key not named in it is unchanged; \<open>reset()\<close> yields the
  default-empty shape regardless of the prior state.
\<close>

theorem draft_store_contract:
  "(\<forall>k \<in> dom partial. updateTreeData st partial k = partial k)
   \<and> (\<forall>k. k \<notin> dom partial \<longrightarrow> updateTreeData st partial k = st k)
   \<and> resetTreeData st = default_treeData"
  by (auto simp: updateTreeData_def resetTreeData_def map_add_def split: option.splits)

theorem draft_store_contract_witness:
  "''treeId'' \<in> dom [''treeId'' \<mapsto> JStr ''T100'']
   \<and> updateTreeData default_treeData [''treeId'' \<mapsto> JStr ''T100''] ''treeId'' = Some (JStr ''T100'')
   \<and> ''numBranches'' \<notin> dom [''treeId'' \<mapsto> JStr ''T100'']
   \<and> updateTreeData default_treeData [''treeId'' \<mapsto> JStr ''T100''] ''numBranches''
       = Some (JNum (Fin 0))
   \<and> resetTreeData filled_treeData = default_treeData"
  using draft_store_contract [of "[''treeId'' \<mapsto> JStr ''T100'']" default_treeData]
    draft_store_contract [of "[''treeId'' \<mapsto> JStr ''T100'']" filled_treeData]
  by (simp add: default_treeData_def)

section \<open>Properties of Step 1\<close>







section \<open>Properties of Step 2\<close>

lemma trim_empty_iff: "trim s = [] \<longleftrightarrow> blank s"
proof -
  have "dropWhile is_ws (rev (dropWhile is_ws s)) = [] \<longleftrightarrow> dropWhile is_ws s = []"
  proof
    assume a: "dropWhile is_ws (rev (dropWhile is_ws s)) = []"
    show "dropWhile is_ws s = []"
    proof (rule ccontr)
      assume ne: "dropWhile is_ws s \<noteq> []"
      then have "\<not> is_ws (hd (dropWhile is_ws s))" by (rule hd_dropWhile)
      moreover have "hd (dropWhile is_ws s) \<in> set (rev (dropWhile is_ws s))"
        using ne by simp
      ultimately show False using a by (auto simp: dropWhile_eq_Nil_conv)
    qed
  next
    assume e: "dropWhile is_ws s = []"
    show "dropWhile is_ws (rev (dropWhile is_ws s)) = []" unfolding e by simp
  qed
  then have "trim s = [] \<longleftrightarrow> dropWhile is_ws s = []"
    by (simp add: trim_def)
  also have "\<dots> \<longleftrightarrow> blank s"
    by (simp add: blank_def list_all_iff dropWhile_eq_Nil_conv)
  finally show ?thesis .
qed

lemma blank_iff: "(s = [] \<or> trim s = []) \<longleftrightarrow> blank s"
  by (auto simp: trim_empty_iff) (simp add: blank_def)

lemma positive_iff: "(isNaN n \<or> num_le n 0) \<longleftrightarrow> \<not> positive n"
  by (cases n) auto

lemma first_failure_None: "first_failure js s = None \<longleftrightarrow> entry_passes js s"
  by (simp add: first_failure_def entry_passes_def)

lemma validate_stem_eq:
  "validate_stem js i s =
     (entry_errors js (i, s), if entry_passes js s then numeric_entry js s else JNull)"
  by (simp add: validate_stem_def Let_def blank_iff positive_iff entry_errors_def
      first_failure_def entry_passes_def numeric_entry_def)

lemma map_validate_fst:
  "concat (map fst (map (\<lambda>(index, s). validate_stem js index s) (enumerate n xs)))
     = concat (map (entry_errors js) (enumerate n xs))"
  by (induction xs arbitrary: n) (simp_all add: validate_stem_eq)

lemma map_validate_snd:
  "map snd (map (\<lambda>(index, s). validate_stem js index s) (enumerate n xs))
     = map (\<lambda>s. if entry_passes js s then numeric_entry js s else JNull) xs"
  by (induction xs arbitrary: n) (simp_all add: validate_stem_eq)

lemma null_in_validated:
  "JNull \<in> set (map (\<lambda>s. if entry_passes js s then numeric_entry js s else JNull) xs)
     \<longleftrightarrow> (\<exists>s \<in> set xs. \<not> entry_passes js s)"
  by (auto simp: numeric_entry_def split: if_splits)

lemma all_pass_validated:
  "\<forall>s \<in> set xs. entry_passes js s \<Longrightarrow>
     map (\<lambda>s. if entry_passes js s then numeric_entry js s else JNull) xs
       = map (numeric_entry js) xs"
  by simp

lemma all_pass_no_errors:
  "\<forall>s \<in> set xs. entry_passes js s \<Longrightarrow> concat (map (entry_errors js) (enumerate n xs)) = []"
  by (induction xs arbitrary: n) (simp_all add: entry_errors_def first_failure_None [THEN iffD2])

lemma entry_errors_count:
  "length (concat (map (entry_errors js) (enumerate n xs)))
     = length (filter (\<lambda>s. \<not> entry_passes js s) xs)"
proof (induction xs arbitrary: n)
  case Nil
  show ?case by simp
next
  case (Cons x xs)
  have "length (entry_errors js (n, x)) = (if entry_passes js x then 0 else 1)"
    using first_failure_None [of js x]
    by (auto simp: entry_errors_def split: option.splits)
  with Cons show ?case by simp
qed

lemma entry_errors_alerts: "\<forall>e \<in> set (concat (map (entry_errors js) (enumerate n xs))). is_Alert e"
  by (auto simp: entry_errors_def split: option.splits)

lemma navigate_not_in_errors:
  "Navigate name p \<notin> set (concat (map (entry_errors js) (enumerate n xs)))"
  by (auto simp: entry_errors_def split: option.splits)

lemma entry_errors_no_navigation:
  "\<not> list_ex is_Navigate (concat (map (entry_errors js) (enumerate n xs)))"
  by (auto simp: list_ex_iff entry_errors_def split: option.splits)

text \<open>The three ways \<open>handleNext\<close> of BranchDetailsForm ends.\<close>

lemma step2_guard:
  "\<not> truthy (getp params ''treeId'') \<or> \<not> truthy (getp params ''branches'') \<Longrightarrow>
     BranchDetailsForm_handleNext js params stemData treeData =
       (treeData,
        [Alert ''Error'' (JStr ''Please enter all required details before proceeding.'')])"
  by (auto simp: BranchDetailsForm_handleNext_def Let_def)

lemma step2_reject:
  assumes "truthy (getp params ''treeId'')" "truthy (getp params ''branches'')"
    and "\<exists>s \<in> set stemData. \<not> entry_passes js s"
  shows "BranchDetailsForm_handleNext js params stemData treeData =
       (treeData, concat (map (entry_errors js) (enumerate 0 stemData)))"
proof -
  have nn: "JNull \<in> set (map snd (map (\<lambda>(index, s). validate_stem js index s)
              (enumerate 0 stemData)))"
    unfolding map_validate_snd using null_in_validated [of js stemData] assms(3) by blast
  show ?thesis
    unfolding BranchDetailsForm_handleNext_def Let_def map_validate_fst
    using assms(1,2) nn by simp
qed

lemma step2_commit:
  assumes "truthy (getp params ''treeId'')" "truthy (getp params ''branches'')"
    and "\<forall>s \<in> set stemData. entry_passes js s"
  shows "BranchDetailsForm_handleNext js params stemData treeData =
       (updateTreeData treeData
          [''treeId'' \<mapsto> getp params ''treeId'',
           ''numBranches'' \<mapsto> getp params ''branches'',
           ''stemData'' \<mapsto> JArr (map (numeric_entry js) stemData),
           ''studentName'' \<mapsto> getp params ''studentName'',
           ''studentRollNo'' \<mapsto> getp params ''studentRollNo'',
           ''studentGroup'' \<mapsto> getp params ''studentGroup''],
        [Navigate ''UploadScreen''
          [''treeId'' \<mapsto> getp params ''treeId'',
           ''branches'' \<mapsto> getp params ''branches'',
           ''stemData'' \<mapsto> JArr (map (numeric_entry js) stemData),
           ''studentName'' \<mapsto> getp params ''studentName'',
           ''studentRollNo'' \<mapsto> getp params ''studentRollNo'',
           ''studentGroup'' \<mapsto> getp params ''studentGroup'']])"
proof -
  have vd: "map snd (map (\<lambda>(index, s). validate_stem js index s) (enumerate 0 stemData))
              = map (numeric_entry js) stemData"
    unfolding map_validate_snd by (rule all_pass_validated [OF assms(3)])
  have al: "concat (map fst (map (\<lambda>(index, s). validate_stem js index s)
              (enumerate 0 stemData))) = []"
    unfolding map_validate_fst by (rule all_pass_no_errors [OF assms(3)])
  have nn: "JNull \<notin> set (map (numeric_entry js) stemData)"
    by (auto simp: numeric_entry_def)
  show ?thesis
    unfolding BranchDetailsForm_handleNext_def Let_def vd al
    using assms(1,2) nn by simp
qed

text \<open>
  C3. Step 2 validates the whole batch before any merge: if any entry fails, the draft
  store is left as it was and nothing is navigated to; the store after the handler is
  either unchanged, or every entry passes all four checks and the full numeric array
  has been merged; and with the parameters present and every entry passing, the merge
  does happen.
\<close>

theorem step2_whole_batch:
  "((\<exists>s \<in> set stemData. \<not> entry_passes js s) \<longrightarrow>
      fst (BranchDetailsForm_handleNext js params stemData treeData) = treeData
      \<and> \<not> list_ex is_Navigate (snd (BranchDetailsForm_handleNext js params stemData treeData)))
   \<and> (fst (BranchDetailsForm_handleNext js params stemData treeData) = treeData
       \<or> ((\<forall>s \<in> set stemData. entry_passes js s)
          \<and> fst (BranchDetailsForm_handleNext js params stemData treeData) =
              updateTreeData treeData
                [''treeId'' \<mapsto> getp params ''treeId'',
                 ''numBranches'' \<mapsto> getp params ''branches'',
                 ''stemData'' \<mapsto> JArr (map (numeric_entry js) stemData),
                 ''studentName'' \<mapsto> getp params ''studentName'',
                 ''studentRollNo'' \<mapsto> getp params ''studentRollNo'',
                 ''studentGroup'' \<mapsto> getp params ''studentGroup'']))
   \<and> (truthy (getp params ''treeId'') \<and> truthy (getp params ''branches'')
       \<and> (\<forall>s \<in> set stemData. entry_passes js s) \<longrightarrow>
         fst (BranchDetailsForm_handleNext js params stemData treeData) =
           updateTreeData treeData
             [''treeId'' \<mapsto> getp params ''treeId'',
              ''numBranches'' \<mapsto> getp params ''branches'',
              ''stemData'' \<mapsto> JArr (map (numeric_entry js) stemData),
              ''studentName'' \<mapsto> getp params ''studentName'',
              ''studentRollNo'' \<mapsto> getp params ''studentRollNo'',
              ''studentGroup'' \<mapsto> getp params ''studentGroup''])"
proof (cases "truthy (getp params ''treeId'') \<and> truthy (getp params ''branches'')")
  case False
  then show ?thesis
    using step2_guard [where params = params and js = js and stemData = stemData and treeData = treeData] by auto
next
  case guard: True
  show ?thesis
  proof (cases "\<forall>s \<in> set stemData. entry_passes js s")
    case True
    then show ?thesis
      using guard step2_commit [where params = params and js = js and stemData = stemData and treeData = treeData] by simp
  next
    case False
    with entry_errors_no_navigation [of js 0 stemData] show ?thesis
      using guard step2_reject [where params = params and js = js and stemData = stemData and treeData = treeData] by auto
  qed
qed

theorem step2_whole_batch_witness:
  "\<not> list_all (entry_passes ref_builtins) scenario_stems
   \<and> fst (BranchDetailsForm_handleNext ref_builtins step2_params scenario_stems default_treeData)
       = default_treeData
   \<and> list_all (entry_passes ref_builtins) valid_stems
   \<and> fst (BranchDetailsForm_handleNext ref_builtins step2_params valid_stems default_treeData)
        ''stemData''
       = Some (JArr [JObj [(''height'', JNum (Fin 12.5)), (''diameter'', JNum (Fin 30))],
                     JObj [(''height'', JNum (Fin 8)), (''diameter'', JNum (Fin 15.2))]])"
proof -
  have pf: "parseFloat_str ''12.5'' = Fin 12.5" "parseFloat_str ''30'' = Fin 30"
    "parseFloat_str ''8'' = Fin 8" "parseFloat_str ''15.2'' = Fin 15.2"
    "parseFloat_str ''0'' = Fin 0" "parseFloat_str ''10'' = Fin 10"
    by (simp_all add: parseFloat_str_def is_ws_def is_digit_def num_of_digits_def digit_val_def
        exponent_of_def)
  have bl: "\<not> blank ''12.5''" "\<not> blank ''30''" "\<not> blank ''8''" "\<not> blank ''15.2''"
    "\<not> blank ''0''" "\<not> blank ''10''"
    by (simp_all add: blank_def is_ws_def)
  have bad: "\<exists>s \<in> set scenario_stems. \<not> entry_passes ref_builtins s"
    by (simp add: scenario_stems_def entry_passes_def ref_builtins_def pf bl)
  have good: "\<forall>s \<in> set valid_stems. entry_passes ref_builtins s"
    by (simp add: valid_stems_def entry_passes_def ref_builtins_def pf bl)
  have tr: "truthy (getp step2_params ''treeId'')" "truthy (getp step2_params ''branches'')"
    by (simp_all add: step2_params_def getp_def)
  show ?thesis
    using bad good tr
      step2_whole_batch [where stemData = scenario_stems and js = ref_builtins and params = step2_params and treeData = default_treeData]
      step2_whole_batch [where stemData = valid_stems and js = ref_builtins and params = step2_params and treeData = default_treeData]
    by (simp add: list_all_iff updateTreeData_def valid_stems_def numeric_entry_def
        ref_builtins_def pf)
qed


text \<open>
  C4, as the code has it.  Within an entry the checks run in the order height present,
  diameter present, height greater than 0, diameter greater than 0, and the first one
  that fails gives that entry's single error, which names the entry's 1-based index.
  Validation does not halt there: every entry is checked, in ascending order, so the
  errors reported are one for each failing entry, in index order, and their number is
  the number of failing entries.
\<close>

theorem step2_errors_per_entry:
  "truthy (getp params ''treeId'') \<and> truthy (getp params ''branches'') \<longrightarrow>
     filter is_Alert (snd (BranchDetailsForm_handleNext js params stemData treeData))
       = concat (map (entry_errors js) (enumerate 0 stemData))
     \<and> length (filter is_Alert (snd (BranchDetailsForm_handleNext js params stemData treeData)))
       = length (filter (\<lambda>s. \<not> entry_passes js s) stemData)
     \<and> (\<not> list_all (entry_passes js) stemData \<longrightarrow>
          \<not> list_ex is_Navigate
               (snd (BranchDetailsForm_handleNext js params stemData treeData)))"
proof (rule impI)
  assume guard: "truthy (getp params ''treeId'') \<and> truthy (getp params ''branches'')"
  have alerts: "filter is_Alert (snd (BranchDetailsForm_handleNext js params stemData treeData))
       = concat (map (entry_errors js) (enumerate 0 stemData))"
  proof (cases "\<forall>s \<in> set stemData. entry_passes js s")
    case True
    then show ?thesis
      using guard all_pass_no_errors [of stemData js 0]
        step2_commit [where params = params and js = js and stemData = stemData
          and treeData = treeData]
      by simp
  next
    case False
    have "filter is_Alert (concat (map (entry_errors js) (enumerate 0 stemData)))
            = concat (map (entry_errors js) (enumerate 0 stemData))"
      using entry_errors_alerts [of js 0 stemData] by (simp only: filter_id_conv)
    with False show ?thesis
      using guard
        step2_reject [where params = params and js = js and stemData = stemData
          and treeData = treeData]
      by auto
  qed
  have halted: "\<not> list_all (entry_passes js) stemData \<longrightarrow>
          \<not> list_ex is_Navigate
               (snd (BranchDetailsForm_handleNext js params stemData treeData))"
  proof (rule impI)
    assume "\<not> list_all (entry_passes js) stemData"
    then have "\<exists>s \<in> set stemData. \<not> entry_passes js s"
      by (simp add: list_all_iff)
    from step2_reject [OF _ _ this, of params treeData] guard
    show "\<not> list_ex is_Navigate
               (snd (BranchDetailsForm_handleNext js params stemData treeData))"
      using entry_errors_no_navigation [of js 0 stemData] by simp
  qed
  show "filter is_Alert (snd (BranchDetailsForm_handleNext js params stemData treeData))
       = concat (map (entry_errors js) (enumerate 0 stemData))
     \<and> length (filter is_Alert (snd (BranchDetailsForm_handleNext js params stemData treeData)))
       = length (filter (\<lambda>s. \<not> entry_passes js s) stemData)
     \<and> (\<not> list_all (entry_passes js) stemData \<longrightarrow>
          \<not> list_ex is_Navigate
               (snd (BranchDetailsForm_handleNext js params stemData treeData)))"
    using halted unfolding alerts using entry_errors_count [of js 0 stemData] by simp
qed

theorem step2_errors_per_entry_witness:
  "truthy (getp step2_params ''treeId'') \<and> truthy (getp step2_params ''branches'')
   \<and> filter is_Alert
        (snd (BranchDetailsForm_handleNext ref_builtins step2_params scenario_stems
           default_treeData))
      = [Alert ''Error'' (JStr ''Please enter a valid height for Primary Stem 3'')]
   \<and> \<not> list_all (entry_passes ref_builtins) scenario_stems
   \<and> \<not> list_ex is_Navigate
         (snd (BranchDetailsForm_handleNext ref_builtins step2_params scenario_stems
            default_treeData))"
proof -
  have pf: "parseFloat_str ''12.5'' = Fin 12.5" "parseFloat_str ''30'' = Fin 30"
    "parseFloat_str ''8'' = Fin 8" "parseFloat_str ''15.2'' = Fin 15.2"
    "parseFloat_str ''0'' = Fin 0" "parseFloat_str ''10'' = Fin 10"
    by (simp_all add: parseFloat_str_def is_ws_def is_digit_def num_of_digits_def digit_val_def
        exponent_of_def)
  have bl: "\<not> blank ''12.5''" "\<not> blank ''30''" "\<not> blank ''8''" "\<not> blank ''15.2''"
    "\<not> blank ''0''" "\<not> blank ''10''"
    by (simp_all add: blank_def is_ws_def)
  have tr: "truthy (getp step2_params ''treeId'')" "truthy (getp step2_params ''branches'')"
    by (simp_all add: step2_params_def getp_def)
  have "concat (map (entry_errors ref_builtins) (enumerate 0 scenario_stems))
          = [Alert ''Error'' (JStr ''Please enter a valid height for Primary Stem 3'')]"
    by (simp add: scenario_stems_def entry_errors_def first_failure_def ref_builtins_def pf bl
        show_nat.simps digit_char_def)
  moreover have "\<not> list_all (entry_passes ref_builtins) scenario_stems"
    by (simp add: scenario_stems_def entry_passes_def ref_builtins_def pf bl)
  ultimately show ?thesis
    using tr
      step2_errors_per_entry [where stemData = scenario_stems and js = ref_builtins
        and params = step2_params and treeData = default_treeData]
    by simp
qed

text \<open>
  Two blank entries: the handler reports an error for stem 1 and another for stem 2;
  validation did not halt at the first failing check and more than one error is
  reported.
\<close>

theorem step2_two_errors_counterexample:
  "snd (BranchDetailsForm_handleNext ref_builtins step2_params [blank_stem, blank_stem]
          default_treeData)
     = [Alert ''Error'' (JStr ''Please enter height for Primary Stem 1''),
        Alert ''Error'' (JStr ''Please enter height for Primary Stem 2'')]"
  by (simp add: BranchDetailsForm_handleNext_def Let_def step2_params_def getp_def
      validate_stem_def blank_stem_def show_nat.simps digit_char_def)

text \<open>
  C10. The navigation payload Step 2 produces on success has no \<open>height\<close> and no
  \<open>mainBranchDiameter\<close>; given it, the parameter-reading \<open>handleSave\<close> always ends in a
  single error (no image, or no valid height) and never invokes the save service,
  whatever the screen state, the built-ins and the services.
\<close>

theorem step2_payload_never_saved:
  assumes "Navigate ''UploadScreen'' p
             \<in> set (snd (BranchDetailsForm_handleNext js params stemData treeData))"
  shows "p ''height'' = None \<and> p ''mainBranchDiameter'' = None
    \<and> snd (UploadScreen_params_handleSave js' ext (Some p) st)
        = [Alert ''Error''
             (JStr (if truthy (s_image st) then ''Please enter a valid height''
                    else ''Please upload an image before saving.''))]
    \<and> \<not> service_invoked (snd (UploadScreen_params_handleSave js' ext (Some p) st))
    \<and> s_treeData (fst (UploadScreen_params_handleSave js' ext (Some p) st)) = s_treeData st"
proof -
  have guard: "truthy (getp params ''treeId'') \<and> truthy (getp params ''branches'')"
  proof (rule ccontr)
    assume "\<not> (truthy (getp params ''treeId'') \<and> truthy (getp params ''branches''))"
    then have "\<not> truthy (getp params ''treeId'') \<or> \<not> truthy (getp params ''branches'')"
      by simp
    from step2_guard [OF this, of js stemData treeData] assms show False
      by simp
  qed
  have pass: "\<forall>s \<in> set stemData. entry_passes js s"
  proof (rule ccontr)
    assume "\<not> (\<forall>s \<in> set stemData. entry_passes js s)"
    then have "snd (BranchDetailsForm_handleNext js params stemData treeData)
                 = concat (map (entry_errors js) (enumerate 0 stemData))"
      using guard step2_reject [where params = params and js = js and stemData = stemData
          and treeData = treeData]
      by auto
    with assms navigate_not_in_errors [of "''UploadScreen''" p js 0 stemData] show False
      by simp
  qed
  have p: "p = [''treeId'' \<mapsto> getp params ''treeId'',
           ''branches'' \<mapsto> getp params ''branches'',
           ''stemData'' \<mapsto> JArr (map (numeric_entry js) stemData),
           ''studentName'' \<mapsto> getp params ''studentName'',
           ''studentRollNo'' \<mapsto> getp params ''studentRollNo'',
           ''studentGroup'' \<mapsto> getp params ''studentGroup'']"
    using assms guard pass
      step2_commit [where params = params and js = js and stemData = stemData
        and treeData = treeData]
    by simp
  have h: "getp p ''height'' = JUndefined"
    unfolding p by (simp add: getp_def)
  have keys: "p ''height'' = None \<and> p ''mainBranchDiameter'' = None"
    unfolding p by simp
  have run: "UploadScreen_params_handleSave js' ext (Some p) st =
      (if truthy (s_image st)
       then (st\<lparr>s_treeData := s_treeData st, s_loading := False\<rparr>,
             [Alert ''Error'' (JStr ''Please enter a valid height'')])
       else (st, [Alert ''Error'' (JStr ''Please upload an image before saving.'')]))"
    by (simp add: UploadScreen_params_handleSave_def params_try_def Let_def h)
  show ?thesis
    unfolding run using keys by (simp add: service_invoked_def)
qed

theorem step2_payload_never_saved_witness:
  "Navigate ''UploadScreen''
      [''treeId'' \<mapsto> JStr ''T100'',
       ''branches'' \<mapsto> JNum (Fin 2),
       ''stemData'' \<mapsto> JArr (map (numeric_entry ref_builtins) valid_stems),
       ''studentName'' \<mapsto> JStr ''Asha'',
       ''studentRollNo'' \<mapsto> JStr ''21'',
       ''studentGroup'' \<mapsto> JStr ''A'']
     \<in> set (snd (BranchDetailsForm_handleNext ref_builtins step2_params valid_stems
                   default_treeData))
   \<and> snd (UploadScreen_params_handleSave ref_builtins ok_services
        (Some [''treeId'' \<mapsto> JStr ''T100'',
               ''branches'' \<mapsto> JNum (Fin 2),
               ''stemData'' \<mapsto> JArr (map (numeric_entry ref_builtins) valid_stems),
               ''studentName'' \<mapsto> JStr ''Asha'',
               ''studentRollNo'' \<mapsto> JStr ''21'',
               ''studentGroup'' \<mapsto> JStr ''A''])
        filled_screen)
      = [Alert ''Error'' (JStr ''Please enter a valid height'')]"
proof -
  have pf: "parseFloat_str ''12.5'' = Fin 12.5" "parseFloat_str ''30'' = Fin 30"
    "parseFloat_str ''8'' = Fin 8" "parseFloat_str ''15.2'' = Fin 15.2"
    by (simp_all add: parseFloat_str_def is_ws_def is_digit_def num_of_digits_def digit_val_def
        exponent_of_def)
  have bl: "\<not> blank ''12.5''" "\<not> blank ''30''" "\<not> blank ''8''" "\<not> blank ''15.2''"
    by (simp_all add: blank_def is_ws_def)
  have good: "\<forall>s \<in> set valid_stems. entry_passes ref_builtins s"
    by (simp add: valid_stems_def entry_passes_def ref_builtins_def pf bl)
  have tr: "truthy (getp step2_params ''treeId'')" "truthy (getp step2_params ''branches'')"
    by (simp_all add: step2_params_def getp_def)
  have nav: "Navigate ''UploadScreen''
      [''treeId'' \<mapsto> JStr ''T100'',
       ''branches'' \<mapsto> JNum (Fin 2),
       ''stemData'' \<mapsto> JArr (map (numeric_entry ref_builtins) valid_stems),
       ''studentName'' \<mapsto> JStr ''Asha'',
       ''studentRollNo'' \<mapsto> JStr ''21'',
       ''studentGroup'' \<mapsto> JStr ''A'']
     \<in> set (snd (BranchDetailsForm_handleNext ref_builtins step2_params valid_stems
                   default_treeData))"
    unfolding step2_commit [OF tr good]
    by (simp add: step2_params_def getp_def)
  show ?thesis
    using nav step2_payload_never_saved [OF nav, of ref_builtins ok_services filled_screen]
    by (simp add: filled_screen_def)
qed

section \<open>Properties of Step 3\<close>

text \<open>Where the save service is called, the \<open>try\<close> block ends right after the call.\<close>

lemma store_try_call:
  assumes "SaveCall r i \<in> set (fst (store_try ext st))"
  shows "store_try ext st =
      (case saveTreeData ext r i of
         Throws error \<Rightarrow> ([SaveCall r i], Some error)
       | Returns v \<Rightarrow>
          ([SaveCall r i, AlertOK ''Success'' (JStr ''Tree data has been saved!'')], None))"
  using assms
  by (auto simp: store_try_def split: if_splits option.splits outcome.splits)

lemma params_try_call:
  assumes "SaveCall r i \<in> set (fst (snd (params_try js ext params st)))"
  shows "params_try js ext params st =
      (case saveTreeData ext r i of
         Throws error \<Rightarrow> (s_treeData st, [SaveCall r i], Some error)
       | Returns v \<Rightarrow>
          (resetTreeData (s_treeData st),
           [SaveCall r i, AlertOK ''Success'' (JStr ''Tree data has been saved!'')], None))"
  using assms
  by (auto simp: params_try_def Let_def split: if_splits option.splits outcome.splits)

lemma catch_alert_message:
  "get_prop error ''message'' = Some (JStr m) \<Longrightarrow> m \<noteq> [] \<Longrightarrow>
     catch_alert ext error = [Alert ''Error'' (JStr m)]"
  by (simp add: catch_alert_def js_or_def)

lemma catch_alert_no_call: "SaveCall r i \<notin> set (catch_alert ext error)"
  by (simp add: catch_alert_def split: option.splits)

lemma store_handleSave_state:
  "fst (UploadScreen_store_handleSave ext st) = st\<lparr>s_loading := False\<rparr>"
  by (simp add: UploadScreen_store_handleSave_def Let_def case_prod_beta)

lemma store_handleSave_events:
  "snd (UploadScreen_store_handleSave ext st) =
     (case snd (store_try ext st) of
        None \<Rightarrow> fst (store_try ext st)
      | Some error \<Rightarrow> fst (store_try ext st) @ catch_alert ext error)"
  by (simp add: UploadScreen_store_handleSave_def Let_def case_prod_beta)

lemma params_handleSave_image:
  "truthy (s_image st) \<Longrightarrow>
     UploadScreen_params_handleSave js ext route_params st =
       (st\<lparr>s_treeData := fst (params_try js ext (case route_params of None \<Rightarrow> Map.empty | Some p \<Rightarrow> p) st),
           s_loading := False\<rparr>,
        case snd (snd (params_try js ext (case route_params of None \<Rightarrow> Map.empty | Some p \<Rightarrow> p) st)) of
          None \<Rightarrow> fst (snd (params_try js ext (case route_params of None \<Rightarrow> Map.empty | Some p \<Rightarrow> p) st))
        | Some error \<Rightarrow>
            fst (snd (params_try js ext (case route_params of None \<Rightarrow> Map.empty | Some p \<Rightarrow> p) st))
              @ catch_alert ext error)"
  by (simp add: UploadScreen_params_handleSave_def Let_def case_prod_beta)

text \<open>
  What the parameter-reading variant does where the store-reading one differs: it resets
  the draft store once the awaited save has returned, and it rejects empty measurement
  data.  The store-reading variant rejects stem data that is absent.
\<close>

lemma params_success_resets:
  assumes "SaveCall r i \<in> set (snd (UploadScreen_params_handleSave js ext route_params st))"
    and "saveTreeData ext r i = Returns v"
  shows "s_treeData (fst (UploadScreen_params_handleSave js ext route_params st))
           = default_treeData"
proof -
  let ?params = "case route_params of None \<Rightarrow> Map.empty | Some p \<Rightarrow> p"
  have img: "truthy (s_image st)"
  proof (rule ccontr)
    assume "\<not> truthy (s_image st)"
    with assms(1) show False by (simp add: UploadScreen_params_handleSave_def)
  qed
  with assms(1) have "SaveCall r i \<in> set (fst (snd (params_try js ext ?params st)))"
    using catch_alert_no_call [of r i ext]
    by (auto simp: params_handleSave_image split: option.splits)
  from params_try_call [OF this] assms(2) img show ?thesis
    by (simp add: params_handleSave_image resetTreeData_def)
qed

lemma params_empty_measurements_rejected:
  assumes "\<not> truthy (getp params ''branchDiameters'')
           \<or> \<not> isArray (getp params ''branchDiameters'')
           \<or> elems (getp params ''branchDiameters'') = []"
  shows "\<not> service_invoked (snd (UploadScreen_params_handleSave js ext (Some params) st))
    \<and> (\<exists>m. snd (UploadScreen_params_handleSave js ext (Some params) st)
             = [Alert ''Error'' (JStr m)])"
  using assms
  by (auto simp: UploadScreen_params_handleSave_def params_try_def Let_def service_invoked_def)

lemma store_absent_stems_rejected:
  assumes "\<not> truthy (getp (s_treeData st) ''stemData'')
           \<or> \<not> isArray (getp (s_treeData st) ''stemData'')"
  shows "\<not> service_invoked (snd (UploadScreen_store_handleSave ext st))"
proof -
  have "\<not> list_ex is_SaveCall (fst (store_try ext st))"
    using assms
    by (auto simp: store_try_def split: option.splits outcome.splits)
  moreover have "\<not> list_ex is_SaveCall (catch_alert ext error)" for error
    by (simp add: catch_alert_def split: option.splits)
  ultimately show ?thesis
    by (simp add: service_invoked_def store_handleSave_events split: option.splits)
qed

text \<open>
  C6. With no image stored, either \<open>handleSave\<close> raises the no-image error and nothing
  else: the save service is not invoked and the draft store and the image are as before.
\<close>

theorem no_image_rejected:
  assumes "\<not> truthy (s_image st)"
  shows "UploadScreen_params_handleSave js ext route_params st =
           (st, [Alert ''Error'' (JStr ''Please upload an image before saving.'')])
    \<and> UploadScreen_store_handleSave ext st =
           (st\<lparr>s_loading := False\<rparr>,
            [Alert ''Error'' (JStr ''Please upload an image before saving.'')])
    \<and> \<not> service_invoked (snd (UploadScreen_params_handleSave js ext route_params st))
    \<and> \<not> service_invoked (snd (UploadScreen_store_handleSave ext st))"
  using assms
  by (simp add: UploadScreen_params_handleSave_def UploadScreen_store_handleSave_def
      store_try_def service_invoked_def)

theorem no_image_rejected_witness:
  "\<not> truthy (s_image no_image_screen)
   \<and> snd (UploadScreen_params_handleSave ref_builtins ok_services (Some flat_params)
            no_image_screen)
       = [Alert ''Error'' (JStr ''Please upload an image before saving.'')]
   \<and> snd (UploadScreen_store_handleSave ok_services no_image_screen)
       = [Alert ''Error'' (JStr ''Please upload an image before saving.'')]
   \<and> \<not> service_invoked (snd (UploadScreen_store_handleSave ok_services no_image_screen))"
proof -
  have h: "\<not> truthy (s_image no_image_screen)"
    by (simp add: no_image_screen_def)
  show ?thesis
    using h no_image_rejected [OF h, of ref_builtins ok_services "Some flat_params"]
    by (simp add: service_invoked_def)
qed

text \<open>The turns of the parameter-reading \<open>handleSave\<close> compose to the handler as a whole.\<close>

lemma params_try_checked:
  "params_try js ext params st =
    (case params_checked js ext params st of
       Inl alerts \<Rightarrow> (s_treeData st, alerts, None)
     | Inr treeData \<Rightarrow>
        (case saveTreeData ext treeData (s_image st) of
           Throws error \<Rightarrow> (s_treeData st, [SaveCall treeData (s_image st)], Some error)
         | Returns r \<Rightarrow>
            (resetTreeData (s_treeData st),
             [SaveCall treeData (s_image st),
              AlertOK ''Success'' (JStr ''Tree data has been saved!'')],
             None)))"
  by (simp add: params_try_def params_checked_def Let_def split: option.splits)

lemma params_press_settle:
  assumes "p_pending c = None" "\<not> s_loading (p_screen c)"
  shows "params_settle ext (params_press js ext route_params c) =
      c\<lparr>p_screen := fst (UploadScreen_params_handleSave js ext route_params (p_screen c)),
        p_events := p_events c
          @ snd (UploadScreen_params_handleSave js ext route_params (p_screen c))\<rparr>"
proof (cases "truthy (s_image (p_screen c))")
  case False
  with assms show ?thesis
    by (simp add: params_press_def params_settle_def UploadScreen_params_handleSave_def)
next
  case True
  with assms show ?thesis
    by (cases "params_checked js ext (case route_params of None \<Rightarrow> Map.empty | Some p \<Rightarrow> p)
                 (p_screen c)")
      (auto simp: params_press_def params_settle_def UploadScreen_params_handleSave_def
        params_try_checked Let_def split: outcome.splits)
qed

text \<open>The flag is set exactly while a call is awaited.\<close>

lemma params_step_flag:
  assumes "s_loading (p_screen c) = (p_pending c \<noteq> None)"
  shows "s_loading (p_screen (params_step js ext route_params c a))
           = (p_pending (params_step js ext route_params c a) \<noteq> None)"
proof (cases a)
  case (PickImage uri)
  with assms show ?thesis by simp
next
  case PressSave
  with assms show ?thesis
    by (auto simp: params_press_def Let_def split: sum.splits)
next
  case ServiceSettles
  with assms show ?thesis
    by (auto simp: params_settle_def split: option.splits outcome.splits)
qed

lemma params_run_flag:
  "s_loading (p_screen (params_run js ext route_params acts (params_init treeData)))
     = (p_pending (params_run js ext route_params acts (params_init treeData)) \<noteq> None)"
proof (induction acts rule: rev_induct)
  case Nil
  show ?case by (simp add: params_run_def params_init_def)
next
  case (snoc a acts)
  then show ?case
    using params_step_flag [of "params_run js ext route_params acts (params_init treeData)"
        js ext route_params a]
    by (simp add: params_run_def)
qed

lemma params_settle_done: "p_pending (params_settle ext c) = None"
  by (simp add: params_settle_def split: option.splits outcome.splits prod.splits)

text \<open>
  C7. The busy flag is false once \<open>handleSave\<close> completes.  The store-reading variant
  clears it on every path.  For the parameter-reading variant, after any sequence of
  picks, presses on Save and settlings of the service call from the screen as mounted:
  the flag is set exactly while a save call is awaited; it is false right after the
  call settles; and where nothing is awaited, a save attempt made there, run to its
  end, is the handler as a whole and leaves the flag false, whatever the outcome.
  Where a call is awaited the flag is set and Save is disabled.
\<close>

theorem loading_cleared:
  "\<not> s_loading (fst (UploadScreen_store_handleSave ext st))
   \<and> s_loading (p_screen (params_run js ext route_params acts (params_init treeData)))
       = (p_pending (params_run js ext route_params acts (params_init treeData)) \<noteq> None)
   \<and> \<not> s_loading
         (p_screen (params_run js ext route_params (acts @ [ServiceSettles])
                      (params_init treeData)))
   \<and> (if p_pending (params_run js ext route_params acts (params_init treeData)) = None
       then params_settle ext
              (params_press js ext route_params
                 (params_run js ext route_params acts (params_init treeData)))
            = (params_run js ext route_params acts (params_init treeData))
                \<lparr>p_screen :=
                   fst (UploadScreen_params_handleSave js ext route_params
                          (p_screen (params_run js ext route_params acts (params_init treeData)))),
                 p_events :=
                   p_events (params_run js ext route_params acts (params_init treeData))
                   @ snd (UploadScreen_params_handleSave js ext route_params
                            (p_screen (params_run js ext route_params acts
                                         (params_init treeData))))\<rparr>
          \<and> \<not> s_loading
                (fst (UploadScreen_params_handleSave js ext route_params
                        (p_screen (params_run js ext route_params acts (params_init treeData)))))
       else s_loading (p_screen (params_run js ext route_params acts (params_init treeData)))
          \<and> params_press js ext route_params
                (params_run js ext route_params acts (params_init treeData))
              = params_run js ext route_params acts (params_init treeData))"
proof -
  let ?c = "params_run js ext route_params acts (params_init treeData)"
  have flag: "s_loading (p_screen ?c) = (p_pending ?c \<noteq> None)"
    by (rule params_run_flag)
  have settled: "\<not> s_loading
         (p_screen (params_run js ext route_params (acts @ [ServiceSettles])
                      (params_init treeData)))"
    using params_run_flag [of js ext route_params "acts @ [ServiceSettles]" treeData]
      params_settle_done [of ext ?c]
    by (simp add: params_run_def)
  have store: "\<not> s_loading (fst (UploadScreen_store_handleSave ext st))"
    by (simp add: store_handleSave_state)
  show ?thesis
  proof (cases "p_pending ?c = None")
    case True
    with flag have idle: "\<not> s_loading (p_screen ?c)" by simp
    have whole: "params_settle ext (params_press js ext route_params ?c) =
        ?c\<lparr>p_screen := fst (UploadScreen_params_handleSave js ext route_params (p_screen ?c)),
           p_events := p_events ?c
             @ snd (UploadScreen_params_handleSave js ext route_params (p_screen ?c))\<rparr>"
      by (rule params_press_settle [OF True idle])
    have after: "\<not> s_loading
        (fst (UploadScreen_params_handleSave js ext route_params (p_screen ?c)))"
    proof (cases "truthy (s_image (p_screen ?c))")
      case True
      then show ?thesis by (simp add: params_handleSave_image)
    next
      case False
      with idle show ?thesis by (simp add: UploadScreen_params_handleSave_def)
    qed
    show ?thesis
      unfolding if_P [OF True] using store flag settled whole after by blast
  next
    case False
    with flag have busy: "s_loading (p_screen ?c)" by simp
    then have same: "params_press js ext route_params ?c = ?c"
      by (simp add: params_press_def Let_def)
    show ?thesis
      unfolding if_not_P [OF False] using store flag settled busy same by blast
  qed
qed

theorem loading_cleared_witness:
  "\<not> s_loading (fst (UploadScreen_store_handleSave failing_services filled_screen))
   \<and> s_loading
       (p_screen (params_run ref_builtins failing_services (Some flat_params)
                    [PickImage ''file:///tree.jpg'', PressSave] (params_init filled_treeData)))
   \<and> \<not> s_loading
       (p_screen (params_run ref_builtins failing_services (Some flat_params)
                    [PickImage ''file:///tree.jpg'', PressSave, ServiceSettles]
                    (params_init filled_treeData)))
   \<and> \<not> s_loading
       (fst (UploadScreen_params_handleSave ref_builtins failing_services (Some flat_params)
               (p_screen (params_run ref_builtins failing_services (Some flat_params)
                            [PickImage ''file:///tree.jpg''] (params_init filled_treeData)))))
   \<and> \<not> s_loading
       (fst (UploadScreen_params_handleSave ref_builtins ok_services (Some flat_params)
               (p_screen (params_run ref_builtins ok_services (Some flat_params)
                            [] (params_init filled_treeData)))))"
proof -
  have pf: "parseFloat_str ''12.5'' = Fin 12.5" "parseFloat_str ''30'' = Fin 30"
    "parseFloat_str ''3'' = Fin 3" "parseFloat_str ''4.5'' = Fin 4.5"
    by (simp_all add: parseFloat_str_def is_ws_def is_digit_def num_of_digits_def digit_val_def
        exponent_of_def)
  have awaited: "p_pending (params_run ref_builtins failing_services (Some flat_params)
                    [PickImage ''file:///tree.jpg'', PressSave] (params_init filled_treeData))
                  \<noteq> None"
    by (simp add: params_run_def params_init_def params_press_def params_checked_def Let_def
        flat_params_def getp_def ref_builtins_def pf)
  have idle1: "p_pending (params_run ref_builtins failing_services (Some flat_params)
                    [PickImage ''file:///tree.jpg''] (params_init filled_treeData)) = None"
    by (simp add: params_run_def params_init_def)
  have idle0: "p_pending (params_run ref_builtins ok_services (Some flat_params)
                    [] (params_init filled_treeData)) = None"
    by (simp add: params_run_def params_init_def)
  show ?thesis
    using awaited idle1 idle0
      loading_cleared [of failing_services filled_screen ref_builtins "Some flat_params"
        "[PickImage ''file:///tree.jpg'', PressSave]" filled_treeData]
      loading_cleared [of failing_services filled_screen ref_builtins "Some flat_params"
        "[PickImage ''file:///tree.jpg'']" filled_treeData]
      loading_cleared [of ok_services filled_screen ref_builtins "Some flat_params"
        "[]" filled_treeData]
    by (simp del: foldl_Cons add: params_run_def [symmetric])
qed

text \<open>
  C8. When the save service is called and rejects with an error whose message is a
  non-empty string, either \<open>handleSave\<close> shows exactly that message and ends with the
  draft store and the image as they were before the attempt and the busy flag false.
\<close>

theorem service_failure_message:
  "(SaveCall r i \<in> set (snd (UploadScreen_store_handleSave ext st))
      \<and> saveTreeData ext r i = Throws error
      \<and> get_prop error ''message'' = Some (JStr m) \<and> m \<noteq> [] \<longrightarrow>
      UploadScreen_store_handleSave ext st =
        (st\<lparr>s_loading := False\<rparr>, [SaveCall r i, Alert ''Error'' (JStr m)]))
   \<and> (SaveCall r i \<in> set (snd (UploadScreen_params_handleSave js ext route_params st))
      \<and> saveTreeData ext r i = Throws error
      \<and> get_prop error ''message'' = Some (JStr m) \<and> m \<noteq> [] \<longrightarrow>
      UploadScreen_params_handleSave js ext route_params st =
        (st\<lparr>s_loading := False\<rparr>, [SaveCall r i, Alert ''Error'' (JStr m)]))"
proof (intro conjI impI)
  assume a: "SaveCall r i \<in> set (snd (UploadScreen_store_handleSave ext st))
      \<and> saveTreeData ext r i = Throws error
      \<and> get_prop error ''message'' = Some (JStr m) \<and> m \<noteq> []"
  then have "SaveCall r i \<in> set (fst (store_try ext st))"
    using catch_alert_no_call [of r i ext]
    by (auto simp: store_handleSave_events split: option.splits)
  from store_try_call [OF this] a
  have t: "store_try ext st = ([SaveCall r i], Some error)" by simp
  show "UploadScreen_store_handleSave ext st =
        (st\<lparr>s_loading := False\<rparr>, [SaveCall r i, Alert ''Error'' (JStr m)])"
    using a by (simp add: UploadScreen_store_handleSave_def t catch_alert_message)
next
  let ?params = "case route_params of None \<Rightarrow> Map.empty | Some p \<Rightarrow> p"
  assume a: "SaveCall r i \<in> set (snd (UploadScreen_params_handleSave js ext route_params st))
      \<and> saveTreeData ext r i = Throws error
      \<and> get_prop error ''message'' = Some (JStr m) \<and> m \<noteq> []"
  have img: "truthy (s_image st)"
  proof (rule ccontr)
    assume "\<not> truthy (s_image st)"
    with a show False by (simp add: UploadScreen_params_handleSave_def)
  qed
  with a have "SaveCall r i \<in> set (fst (snd (params_try js ext ?params st)))"
    using catch_alert_no_call [of r i ext]
    by (auto simp: params_handleSave_image split: option.splits)
  from params_try_call [OF this] a
  have t: "params_try js ext ?params st = (s_treeData st, [SaveCall r i], Some error)" by simp
  show "UploadScreen_params_handleSave js ext route_params st =
        (st\<lparr>s_loading := False\<rparr>, [SaveCall r i, Alert ''Error'' (JStr m)])"
    using a img by (simp add: UploadScreen_params_handleSave_def t catch_alert_message)
qed


theorem service_failure_message_witness:
  "UploadScreen_store_handleSave failing_services filled_screen =
     (filled_screen,
      [SaveCall
         [''treeId'' \<mapsto> JStr ''T100'',
          ''numBranches'' \<mapsto> JNum (Fin 1),
          ''stemData'' \<mapsto> JArr [JObj [(''height'', JNum (Fin 8)), (''diameter'', JNum (Fin 15))]],
          ''studentName'' \<mapsto> JStr ''Asha'',
          ''studentRollNo'' \<mapsto> JStr ''21'',
          ''studentGroup'' \<mapsto> JStr ''A'',
          ''userEmail'' \<mapsto> JStr ''student@example.org'']
         (JStr ''file:///tree.jpg''),
       Alert ''Error'' (JStr ''network unavailable'')])
   \<and> UploadScreen_params_handleSave ref_builtins failing_services (Some flat_params)
        filled_screen =
     (filled_screen,
      [SaveCall
         [''treeId'' \<mapsto> JStr ''T100'',
          ''height'' \<mapsto> JNum (Fin 12.5),
          ''numBranches'' \<mapsto> JNum (Fin 2),
          ''branchDiameters'' \<mapsto> JArr [JNum (Fin 3), JNum (Fin 4.5)],
          ''mainBranchDiameter'' \<mapsto> JNum (Fin 30),
          ''studentName'' \<mapsto> JStr ''Asha'',
          ''studentRollNo'' \<mapsto> JStr ''21'',
          ''studentGroup'' \<mapsto> JStr ''A'',
          ''userEmail'' \<mapsto> JStr ''student@example.org'']
         (JStr ''file:///tree.jpg''),
       Alert ''Error'' (JStr ''network unavailable'')])"
proof -
  let ?R1 = "[''treeId'' \<mapsto> JStr ''T100'',
          ''numBranches'' \<mapsto> JNum (Fin 1),
          ''stemData'' \<mapsto> JArr [JObj [(''height'', JNum (Fin 8)), (''diameter'', JNum (Fin 15))]],
          ''studentName'' \<mapsto> JStr ''Asha'',
          ''studentRollNo'' \<mapsto> JStr ''21'',
          ''studentGroup'' \<mapsto> JStr ''A'',
          ''userEmail'' \<mapsto> JStr ''student@example.org'']"
  let ?R2 = "[''treeId'' \<mapsto> JStr ''T100'',
          ''height'' \<mapsto> JNum (Fin 12.5),
          ''numBranches'' \<mapsto> JNum (Fin 2),
          ''branchDiameters'' \<mapsto> JArr [JNum (Fin 3), JNum (Fin 4.5)],
          ''mainBranchDiameter'' \<mapsto> JNum (Fin 30),
          ''studentName'' \<mapsto> JStr ''Asha'',
          ''studentRollNo'' \<mapsto> JStr ''21'',
          ''studentGroup'' \<mapsto> JStr ''A'',
          ''userEmail'' \<mapsto> JStr ''student@example.org'']"
  let ?I = "JStr ''file:///tree.jpg''"
  let ?E = "JObj [(''message'', JStr ''network unavailable'')]"
  have pf: "parseFloat_str ''12.5'' = Fin 12.5" "parseFloat_str ''30'' = Fin 30"
    "parseFloat_str ''3'' = Fin 3" "parseFloat_str ''4.5'' = Fin 4.5"
    by (simp_all add: parseFloat_str_def is_ws_def is_digit_def num_of_digits_def digit_val_def
        exponent_of_def)
  have pi: "parseInt10 ''2'' = Fin 2"
    using to_double_exact [of 2]
    by (simp add: parseInt10_def is_ws_def is_digit_def num_of_digits_def digit_val_def)
  have c1: "SaveCall ?R1 ?I \<in> set (snd (UploadScreen_store_handleSave failing_services filled_screen))"
    by (simp add: UploadScreen_store_handleSave_def store_try_def failing_services_def
        ok_services_def filled_screen_def filled_treeData_def dataToSave_of_def demo_user_def
        demo_details_def getp_def)
  have c2: "SaveCall ?R2 ?I
      \<in> set (snd (UploadScreen_params_handleSave ref_builtins failing_services
                    (Some flat_params) filled_screen))"
    by (simp add: UploadScreen_params_handleSave_def params_try_def Let_def failing_services_def
        ok_services_def filled_screen_def filled_treeData_def flat_params_def demo_user_def
        getp_def ref_builtins_def js_or_def opt_prop_def pf pi)
  have f: "saveTreeData failing_services ?R1 ?I = Throws ?E"
    "saveTreeData failing_services ?R2 ?I = Throws ?E"
    by (simp_all add: failing_services_def)
  have g: "get_prop ?E ''message'' = Some (JStr ''network unavailable'')"
    "''network unavailable'' \<noteq> []"
    by simp_all
  have s: "filled_screen\<lparr>s_loading := False\<rparr> = filled_screen"
    by (simp add: filled_screen_def)
  show ?thesis
    using c1 c2 f g
      service_failure_message [where r = ?R1 and i = ?I and ext = failing_services
        and st = filled_screen and error = ?E and m = "''network unavailable''"]
      service_failure_message [where r = ?R2 and i = ?I and ext = failing_services
        and st = filled_screen and error = ?E and m = "''network unavailable''"
        and js = ref_builtins and route_params = "Some flat_params"]
    by (simp only: s simp_thms)
qed

text \<open>
  C1 fails on the store-reading variant.  With an image, stored student details and a
  save service that succeeds, \<open>handleSave\<close> calls the service and leaves the draft store
  as it was; pressing OK then throws the ReferenceError for \<open>context\<close>, so the store is
  not reset and still differs from the defaults.
\<close>

theorem store_variant_success_keeps_store:
  "service_invoked (snd (UploadScreen_store_handleSave ok_services filled_screen))
   \<and> fst (UploadScreen_store_handleSave ok_services filled_screen) = filled_screen
   \<and> UploadScreen_store_onPressOK ok_services filled_screen =
       (filled_screen, [Uncaught (JObj [(''name'', JStr ''ReferenceError'')])])
   \<and> s_treeData filled_screen ''treeId'' = Some (JStr ''T100'')
   \<and> default_treeData ''treeId'' = Some (JStr [])"
  by (simp add: UploadScreen_store_handleSave_def store_try_def ok_services_def
      filled_screen_def filled_treeData_def dataToSave_of_def demo_user_def demo_details_def
      getp_def service_invoked_def UploadScreen_store_onPressOK_def store_variant_scope_def
      default_treeData_def)

text \<open>
  C2 fails on the store-reading variant.  With the draft store at its defaults
  (\<open>stemData\<close> the empty array), an image and stored student details, \<open>handleSave\<close>
  passes the stem-data check and calls the save service with the empty \<open>stemData\<close>.
\<close>

theorem store_variant_saves_empty_stems:
  "getp (s_treeData empty_stems_screen) ''stemData'' = JArr []
   \<and> snd (UploadScreen_store_handleSave ok_services empty_stems_screen) =
       [SaveCall
          [''treeId'' \<mapsto> JStr [],
           ''numBranches'' \<mapsto> JNum (Fin 0),
           ''stemData'' \<mapsto> JArr [],
           ''studentName'' \<mapsto> JStr ''Asha'',
           ''studentRollNo'' \<mapsto> JStr ''21'',
           ''studentGroup'' \<mapsto> JStr ''A'',
           ''userEmail'' \<mapsto> JStr ''student@example.org'']
          (JStr ''file:///tree.jpg''),
        AlertOK ''Success'' (JStr ''Tree data has been saved!'')]
   \<and> service_invoked (snd (UploadScreen_store_handleSave ok_services empty_stems_screen))"
  by (simp add: UploadScreen_store_handleSave_def store_try_def ok_services_def
      empty_stems_screen_def default_treeData_def dataToSave_of_def demo_user_def
      demo_details_def getp_def service_invoked_def)

end
